theory Spec2Isabelle
  imports Main
begin

section \<open>Exceptions and the files the launcher touches\<close>

text \<open>
  Both scripts are glue around the operating system: environment variables, the platform
  name, a few directory trees, one child process. Whatever the scripts read from outside
  is a field of a record the functions take; whatever they change is a store they return.
  An exception is a value of \<open>error\<close>; a function that can raise returns \<open>error + 'a\<close>.
\<close>

datatype errno = EACCES | ENOTEMPTY | ENOENT | EEXIST | ENOTDIR | EISDIR

datatype error =
    OSError errno string
  | RuntimeError string
  | NameError string
  | ImportError string
  | AttributeError string
  | CalledProcessError int

text \<open>
  A directory tree. \<open>read_only\<close> is what \<open>os.chmod(path, 0777)\<close> clears and
  \<open>shutil.copytree\<close> copies along with the entry: the read-only attribute on Windows, a
  mode without the write bits elsewhere. The entries of a directory are kept in listing
  order.
\<close>

datatype node =
    File (read_only: bool)
  | Dir (read_only: bool) (entries: "(string \<times> node) list")

text \<open>
  The store maps every path the launcher names to what is found there: the installation
  location, the temporary directory, the bundled preferences and their fresh copy.
  \<open>None\<close> is a path that does not exist.
\<close>

type_synonym fs = "string \<rightharpoonup> node"

definition os_path_exists :: "fs \<Rightarrow> string \<Rightarrow> bool" where
  "os_path_exists fs path = (fs path \<noteq> None)"

text \<open>The functions \<open>shutil.rmtree\<close> reports to its \<open>onerror\<close> handler (Python 2.7).\<close>

datatype os_func = os_path_islink | os_listdir | os_remove | os_rmdir

text \<open>
  Whether the system refuses to remove an entry. On Windows the read-only attribute of
  the entry itself decides; elsewhere the entry's own mode is of no account and the
  directory that holds it must be writable.
\<close>

definition refused :: "string \<Rightarrow> bool \<Rightarrow> bool \<Rightarrow> bool" where
  "refused sys dir_read_only ro = (if sys = ''Windows'' then ro else dir_read_only)"

text \<open>
  The system calls on what is found at one path, given the platform and whether the
  directory that holds the path is read-only: the result is what is found at the path
  afterwards, or the \<open>errno\<close> of the \<open>OSError\<close> the call raises.
\<close>

fun os_chmod_0777 :: "node option \<Rightarrow> errno + node option" where
  "os_chmod_0777 None = Inl ENOENT"
| "os_chmod_0777 (Some (File ro)) = Inr (Some (File False))"
| "os_chmod_0777 (Some (Dir ro es)) = Inr (Some (Dir False es))"

fun os_remove_at :: "string \<Rightarrow> bool \<Rightarrow> node option \<Rightarrow> errno + node option" where
  "os_remove_at sys dir_read_only None = Inl ENOENT"
| "os_remove_at sys dir_read_only (Some (File ro)) =
     (if refused sys dir_read_only ro then Inl EACCES else Inr None)"
| "os_remove_at sys dir_read_only (Some (Dir ro es)) = Inl EISDIR"

fun os_rmdir_at :: "string \<Rightarrow> bool \<Rightarrow> node option \<Rightarrow> errno + node option" where
  "os_rmdir_at sys dir_read_only None = Inl ENOENT"
| "os_rmdir_at sys dir_read_only (Some (File ro)) = Inl ENOTDIR"
| "os_rmdir_at sys dir_read_only (Some (Dir ro es)) =
     (if es \<noteq> [] then Inl ENOTEMPTY
      else if refused sys dir_read_only ro then Inl EACCES
      else Inr None)"

text \<open>
  \<open>func(path)\<close>, as \<open>rmtree\<close> calls it and as a handler calls it again. \<open>os.listdir\<close> and
  \<open>os.path.islink\<close> change nothing (the first raises on anything but a directory).
\<close>

fun call_func :: "os_func \<Rightarrow> string \<Rightarrow> bool \<Rightarrow> node option \<Rightarrow> errno + node option" where
  "call_func os_remove sys dir_read_only st = os_remove_at sys dir_read_only st"
| "call_func os_rmdir sys dir_read_only st = os_rmdir_at sys dir_read_only st"
| "call_func os_listdir sys dir_read_only None = Inl ENOENT"
| "call_func os_listdir sys dir_read_only (Some (File ro)) = Inl ENOTDIR"
| "call_func os_listdir sys dir_read_only (Some (Dir ro es)) = Inr (Some (Dir ro es))"
| "call_func os_path_islink sys dir_read_only st = Inr st"

section \<open>Paths and formatting\<close>

text \<open>
  \<open>os.path.join\<close> of a path and one further component. \<open>os.path\<close> is \<open>ntpath\<close> on Windows
  and \<open>posixpath\<close> elsewhere. The \<open>ntpath\<close> branch is the case of a component with no
  drive and no leading separator, which is what every call of the launcher passes.
\<close>

definition join2 :: "string \<Rightarrow> string \<Rightarrow> string \<Rightarrow> string" where
  "join2 sys a b =
     (if sys = ''Windows'' then
        (if a = [] \<or> last a = CHR 0x5C \<or> last a = CHR ''/'' \<or> (length a = 2 \<and> last a = CHR '':'')
         then a @ b else a @ [CHR 0x5C] @ b)
      else
        (if b \<noteq> [] \<and> hd b = CHR ''/'' then b
         else if a = [] \<or> last a = CHR ''/'' then a @ b
         else a @ ''/'' @ b))"

definition os_path_join :: "string \<Rightarrow> string \<Rightarrow> string list \<Rightarrow> string" where
  "os_path_join sys a ps = foldl (join2 sys) a ps"

text \<open>\<open>sep.join(xs)\<close> of Python strings.\<close>

fun str_join :: "string \<Rightarrow> string list \<Rightarrow> string" where
  "str_join sep [] = []"
| "str_join sep [x] = x"
| "str_join sep (x # y # ys) = x @ sep @ str_join sep (y # ys)"

text \<open>\<open>"{0}".format(n)\<close> of a Python int: decimal digits, \<open>-\<close> in front of a negative one.\<close>

definition digit_char :: "nat \<Rightarrow> char" where
  "digit_char d = ''0123456789'' ! d"

function format_nat :: "nat \<Rightarrow> string" where
  "format_nat n = (if n < 10 then [digit_char n] else format_nat (n div 10) @ [digit_char (n mod 10)])"
  by pat_completeness auto
termination
  by (relation "measure id") auto

definition format_int :: "int \<Rightarrow> string" where
  "format_int i = (if i < 0 then CHR ''-'' # format_nat (nat (- i)) else format_nat (nat i))"

section \<open>shutil.rmtree and shutil.copytree\<close>

text \<open>
  An \<open>onerror\<close> handler receives the function that failed, the path and the \<open>errno\<close> of
  the \<open>os.error\<close> caught (the only part of \<open>exc_info\<close> a handler of this program reads).
  It acts on what is at the path, on the platform and in the directory the walk has
  reached: it raises, or returns with what is at the path afterwards.
\<close>

type_synonym onerror =
  "os_func \<Rightarrow> string \<Rightarrow> errno \<Rightarrow> string \<Rightarrow> bool \<Rightarrow> node option \<Rightarrow> error + node option"

text \<open>\<open>onerror=None\<close>: the handler of \<open>rmtree\<close> re-raises the exception.\<close>

definition onerror_raise :: onerror where
  "onerror_raise func path en sys dir_read_only st = Inl (OSError en path)"

text \<open>
  One guarded call of the walk: \<open>try: func(path)\<close>, \<open>except os.error: onerror(func, path,
  sys.exc_info())\<close>.
\<close>

definition guarded ::
  "onerror \<Rightarrow> os_func \<Rightarrow> string \<Rightarrow> string \<Rightarrow> bool \<Rightarrow> node option \<Rightarrow> error option \<times> node option" where
  "guarded h func path sys dir_read_only st =
     (case call_func func sys dir_read_only st of
        Inr st' \<Rightarrow> (None, st')
      | Inl en \<Rightarrow>
          (case h func path en sys dir_read_only st of
             Inl e \<Rightarrow> (Some e, st)
           | Inr st' \<Rightarrow> (None, st')))"

fun keep :: "string \<Rightarrow> node option \<Rightarrow> (string \<times> node) list" where
  "keep name None = []"
| "keep name (Some n) = [(name, n)]"

text \<open>
  \<open>rmtree(path, ignore_errors=False, onerror=h)\<close> of Python 2.7: list the directory, remove
  every entry (a subdirectory by \<open>rmtree\<close>, anything else by \<open>os.remove\<close>), then
  \<open>os.rmdir(path)\<close>. A handler that returns lets the walk go on; one that raises ends it
  and leaves the rest in place. The result is the exception, if any, and what is left at
  the path. On a path that is not a directory \<open>os.listdir\<close> fails: the names are then
  empty and \<open>os.rmdir\<close> is tried. The trees hold no symbolic link, so the check of
  \<open>os.path.islink\<close> that opens \<open>rmtree\<close> always passes. The entries of a directory are
  removed from that directory, so its \<open>read_only\<close> is what they meet.
\<close>

primrec rmtree_node ::
    "node \<Rightarrow> onerror \<Rightarrow> string \<Rightarrow> bool \<Rightarrow> string \<Rightarrow> error option \<times> node option"
  and rmtree_names ::
    "(string \<times> node) list \<Rightarrow> onerror \<Rightarrow> string \<Rightarrow> bool \<Rightarrow> string
       \<Rightarrow> error option \<times> (string \<times> node) list"
  and rmtree_name ::
    "string \<times> node \<Rightarrow> onerror \<Rightarrow> string \<Rightarrow> bool \<Rightarrow> string
       \<Rightarrow> error option \<times> (string \<times> node) list"
where
  "rmtree_node (File ro) h sys dir_read_only path =
     (case guarded h os_listdir path sys dir_read_only (Some (File ro)) of
        (Some e, st) \<Rightarrow> (Some e, st)
      | (None, st) \<Rightarrow> guarded h os_rmdir path sys dir_read_only st)"
| "rmtree_node (Dir ro es) h sys dir_read_only path =
     (case rmtree_names es h sys ro path of
        (Some e, es') \<Rightarrow> (Some e, Some (Dir ro es'))
      | (None, es') \<Rightarrow> guarded h os_rmdir path sys dir_read_only (Some (Dir ro es')))"
| "rmtree_names [] h sys dir_read_only path = (None, [])"
| "rmtree_names (x # xs) h sys dir_read_only path =
     (case rmtree_name x h sys dir_read_only path of
        (Some e, left) \<Rightarrow> (Some e, left @ xs)
      | (None, left) \<Rightarrow>
          (case rmtree_names xs h sys dir_read_only path of (err, xs') \<Rightarrow> (err, left @ xs')))"
| "rmtree_name (name, n) h sys dir_read_only path =
     (case n of
        Dir ro es \<Rightarrow>
          (case rmtree_node n h sys dir_read_only (os_path_join sys path [name]) of
             (err, st) \<Rightarrow> (err, keep name st))
      | File ro \<Rightarrow>
          (case guarded h os_remove (os_path_join sys path [name]) sys dir_read_only (Some n) of
             (err, st) \<Rightarrow> (err, keep name st)))"

text \<open>
  \<open>rmtree\<close> on a path of the store. The directory that holds such a path is taken to be
  writable: for the launcher it is the temporary directory, where it makes its copy.
\<close>

definition rmtree :: "onerror \<Rightarrow> string \<Rightarrow> string \<Rightarrow> fs \<Rightarrow> error option \<times> fs" where
  "rmtree h sys path fs =
     (case fs path of
        None \<Rightarrow>
          (case guarded h os_listdir path sys False None of
             (Some e, st) \<Rightarrow> (Some e, fs(path := st))
           | (None, st) \<Rightarrow>
               (case guarded h os_rmdir path sys False st of (err, st') \<Rightarrow> (err, fs(path := st'))))
      | Some n \<Rightarrow> (case rmtree_node n h sys False path of (err, st') \<Rightarrow> (err, fs(path := st'))))"

text \<open>
  \<open>shutil.copytree(src, dst)\<close>: \<open>os.listdir(src)\<close> raises unless the source is a directory,
  \<open>os.makedirs(dst)\<close> raises when the destination exists; the copy keeps the permission
  bits of every entry (\<open>copy2\<close>, \<open>copystat\<close>).
\<close>

definition copytree :: "string \<Rightarrow> string \<Rightarrow> fs \<Rightarrow> error option \<times> fs" where
  "copytree src dst fs =
     (case fs src of
        None \<Rightarrow> (Some (OSError ENOENT src), fs)
      | Some (File ro) \<Rightarrow> (Some (OSError ENOTDIR src), fs)
      | Some (Dir ro es) \<Rightarrow>
          (if os_path_exists fs dst then (Some (OSError EEXIST dst), fs)
           else (None, fs(dst \<mapsto> Dir ro es))))"

section \<open>The launcher, run\_tests.py\<close>

text \<open>
  What one run of the launcher reads from outside: \<open>os.environ\<close>, \<open>platform.system()\<close>,
  the directory of the script, \<open>tempfile.gettempdir()\<close>, the string of the UUID that
  \<open>uuid.uuid4()\<close> draws, and \<open>subprocess.call\<close>: the child process gets the command and the
  environment, may change the files, and ends with an exit code (or cannot be started).
\<close>

record world =
  environ :: "string \<rightharpoonup> string"
  system :: string
  CURRENT_DIR :: string
  gettempdir :: string
  uuid4 :: string
  call :: "string list \<Rightarrow> (string \<rightharpoonup> string) \<Rightarrow> fs \<Rightarrow> (error + int) \<times> fs"

definition PARENT_REPO_MODULE_PATH :: "world \<Rightarrow> string" where
  "PARENT_REPO_MODULE_PATH w = os_path_join (system w) (CURRENT_DIR w) [''..'', ''modules'']"

text \<open>
  The names bound in the module: the imports of lines 12 to 23, the two constants and the
  five functions. \<open>errno\<close> is not among them, and it is not a builtin.
\<close>

definition module_globals :: "string list" where
  "module_globals =
     [''absolute_import'', ''argparse'', ''os'', ''platform'', ''shutil'', ''stat'', ''sys'',
      ''tempfile'', ''uuid'', ''CalledProcessError'', ''call'', ''CURRENT_DIR'',
      ''PARENT_REPO_MODULE_PATH'', ''main'', ''create_clean_maya_app_dir'',
      ''remove_read_only'', ''get_maya_location'', ''get_mayapy_executable'']"

definition load_global :: "string \<Rightarrow> error + unit" where
  "load_global name = (if name \<in> set module_globals then Inr () else Inl (NameError name))"

text \<open>
  \<open>remove_read_only(func, path, exc)\<close>. The condition is evaluated from the left:
  \<open>func in (os.rmdir, os.remove)\<close>, and only when that holds \<open>excvalue.errno\<close> and the
  global \<open>errno\<close>. Then \<open>os.chmod\<close> and \<open>func(path)\<close>, each of which may raise.
\<close>

definition remove_read_only :: onerror where
  "remove_read_only func path excvalue_errno sys dir_read_only st =
     (if func = os_rmdir \<or> func = os_remove then
        (case load_global ''errno'' of
           Inl e \<Rightarrow> Inl e
         | Inr u \<Rightarrow>
             (if excvalue_errno = EACCES then
                (case os_chmod_0777 st of
                   Inl en \<Rightarrow> Inl (OSError en path)
                 | Inr st' \<Rightarrow>
                     (case call_func func sys dir_read_only st' of
                        Inl en \<Rightarrow> Inl (OSError en path)
                      | Inr st'' \<Rightarrow> Inr st''))
              else Inl (RuntimeError (''Could not remove '' @ path))))
      else Inl (RuntimeError (''Could not remove '' @ path)))"

text \<open>
  \<open>get_maya_location\<close>, lines 100 to 117: the location before it is looked for on disk.
  It starts as \<open>None\<close>, hence the option.
\<close>

definition resolve_location :: "world \<Rightarrow> int \<Rightarrow> string option" where
  "resolve_location w maya_version =
     (case environ w ''MAYA_LOCATION'' of
        Some location \<Rightarrow> Some location
      | None \<Rightarrow>
          (if system w = ''Windows'' then
             Some (''C:/Program Files/Autodesk/Maya'' @ format_int maya_version)
           else if system w = ''Darwin'' then
             Some (''/Applications/Autodesk/maya'' @ format_int maya_version @ ''/Maya.app/Contents'')
           else
             (let location = ''/usr/autodesk/maya'' @ format_int maya_version
              in Some (if maya_version < 2016 then location @ ''-x64'' else location))))"

text \<open>Lines 119 to 124: the check and the result.\<close>

definition get_maya_location :: "world \<Rightarrow> fs \<Rightarrow> int \<Rightarrow> error + string" where
  "get_maya_location w fs maya_version =
     (case resolve_location w maya_version of
        None \<Rightarrow>
          Inl (RuntimeError (''Maya '' @ format_int maya_version @ '' is not installed on this system.''))
      | Some location \<Rightarrow>
          (if \<not> os_path_exists fs location then
             Inl (RuntimeError (''Maya '' @ format_int maya_version @ '' is not installed on this system.''))
           else Inr location))"

definition get_mayapy_executable :: "world \<Rightarrow> fs \<Rightarrow> int \<Rightarrow> error + string" where
  "get_mayapy_executable w fs maya_version =
     (case get_maya_location w fs maya_version of
        Inl e \<Rightarrow> Inl e
      | Inr location \<Rightarrow>
          (let python_exe = location @ ''/bin/mayapy''
           in Inr (if system w = ''Windows'' then python_exe @ ''.exe'' else python_exe)))"

text \<open>
  \<open>create_clean_maya_app_dir\<close>: the path of the copy, or the exception, and the files as
  they are left. \<open>os.makedirs\<close> of a missing temporary directory makes an empty one.
\<close>

definition create_clean_maya_app_dir :: "world \<Rightarrow> fs \<Rightarrow> (error + string) \<times> fs" where
  "create_clean_maya_app_dir w fs =
     (let app_dir = os_path_join (system w) (CURRENT_DIR w) [''clean_maya_app_dir''];
          temp_dir = gettempdir w;
          fs1 = (if \<not> os_path_exists fs temp_dir then fs(temp_dir \<mapsto> Dir False []) else fs);
          maya_app_dir = os_path_join (system w) temp_dir [''maya_app_dir'' @ uuid4 w];
          (removed, fs2) =
            (if os_path_exists fs1 maya_app_dir
             then rmtree remove_read_only (system w) maya_app_dir fs1
             else (None, fs1))
      in case removed of
           Some e \<Rightarrow> (Inl e, fs2)
         | None \<Rightarrow>
             (case copytree app_dir maya_app_dir fs2 of
                (Some e, fs3) \<Rightarrow> (Inl e, fs3)
              | (None, fs3) \<Rightarrow> (Inr maya_app_dir, fs3)))"

text \<open>
  How \<open>main\<close> ends: \<open>sys.exit(code)\<close>, an exception nobody catches, or the end of the
  function. \<open>exit_status\<close> is what the shell then sees: the argument of \<open>sys.exit\<close>
  (before the operating system cuts it to its own width), 1 after a traceback, 0 at the
  end of the script.
\<close>

datatype outcome = Exit int | Uncaught error | Returned

fun exit_status :: "outcome \<Rightarrow> int" where
  "exit_status (Exit code) = code"
| "exit_status (Uncaught e) = 1"
| "exit_status Returned = 0"

text \<open>
  One run of the launcher, as seen from outside: how it ended, the files it left, what
  \<open>subprocess.call\<close> gave back (if the launcher got that far), and the exception of the
  \<open>rmtree\<close> in the \<open>finally\<close> clause (if any).
\<close>

record launch =
  outcome :: outcome
  store :: fs
  returned :: "(error + int) option"
  cleanup_raised :: "error option"

text \<open>
  The environment of the child: \<open>os.environ.copy()\<close>, then \<open>env.update\<close> with the three
  entries of lines 45 to 54.
\<close>

definition child_env :: "world \<Rightarrow> string \<Rightarrow> (string \<rightharpoonup> string)" where
  "child_env w maya_app_dir =
     (environ w)
       (''MAYA_APP_DIR'' \<mapsto> maya_app_dir,
        ''MAYA_SCRIPT_PATH'' \<mapsto> [],
        ''MAYA_MODULE_PATH'' \<mapsto> str_join '';'' [PARENT_REPO_MODULE_PATH w, CURRENT_DIR w])"

text \<open>
  \<open>main\<close>. The argument is the value of \<open>-m\<close>, if given; argparse supplies 2020 otherwise.
  \<open>sys.exit\<close> raises \<open>SystemExit\<close>, which \<open>except CalledProcessError\<close> lets through; the
  \<open>finally\<close> clause runs \<open>shutil.rmtree(maya_app_dir)\<close> with no handler, and an exception
  raised there replaces the one on its way.
\<close>

definition main :: "world \<Rightarrow> int option \<Rightarrow> fs \<Rightarrow> launch" where
  "main w arg fs =
     (let maya = (case arg of None \<Rightarrow> 2020 | Some v \<Rightarrow> v)
      in case get_mayapy_executable w fs maya of
           Inl e \<Rightarrow>
             \<lparr>outcome = Uncaught e, store = fs, returned = None, cleanup_raised = None\<rparr>
         | Inr mayapy \<Rightarrow>
             (let command = [mayapy, os_path_join (system w) (CURRENT_DIR w) [''suite.py'']]
              in case create_clean_maya_app_dir w fs of
                   (Inl e, fs1) \<Rightarrow>
                     \<lparr>outcome = Uncaught e, store = fs1, returned = None, cleanup_raised = None\<rparr>
                 | (Inr maya_app_dir, fs1) \<Rightarrow>
                     (let env = child_env w maya_app_dir;
                          (r, fs2) = call w command env fs1;
                          pending =
                            (case r of
                               Inr code \<Rightarrow> Exit code
                             | Inl (CalledProcessError c) \<Rightarrow> Returned
                             | Inl e \<Rightarrow> Uncaught e);
                          (failed, fs3) = rmtree onerror_raise (system w) maya_app_dir fs2
                      in \<lparr>outcome = (case failed of Some e \<Rightarrow> Uncaught e | None \<Rightarrow> pending),
                          store = fs3,
                          returned = Some r,
                          cleanup_raised = failed\<rparr>)))"

section \<open>The entry point inside the interpreter, suite.py\<close>

text \<open>
  What a test does when run: it passes, fails an assertion, or raises something else.
  \<open>TextTestRunner.run\<close> files the second under \<open>failures\<close> and the third under \<open>errors\<close>,
  each with the name of the test and its traceback.
\<close>

datatype verdict = Success | Failure string | Error string

record test_result =
  errors :: "(string \<times> string) list"
  failures :: "(string \<times> string) list"

fun add_result :: "test_result \<Rightarrow> string \<times> verdict \<Rightarrow> test_result" where
  "add_result r (t, Success) = r"
| "add_result r (t, Failure tb) = r\<lparr>failures := failures r @ [(t, tb)]\<rparr>"
| "add_result r (t, Error tb) = r\<lparr>errors := errors r @ [(t, tb)]\<rparr>"

definition runner_run :: "(string \<times> verdict) list \<Rightarrow> test_result" where
  "runner_run suite = foldl add_result \<lparr>errors = [], failures = []\<rparr> suite"

text \<open>
  What the entry point reads from outside: the platform, the directory of the script,
  whether \<open>maya.standalone.initialize\<close> and \<open>uninitialize\<close> raise, and what
  \<open>loader.discover\<close> does with a start directory: it raises (\<open>ImportError\<close> for one that
  is missing or cannot be imported) or finds tests, each with what it does when run.
\<close>

record host =
  host_system :: string
  suite_CURRENT_DIR :: string
  initialize :: "error option"
  uninitialize :: "error option"
  discover :: "string \<Rightarrow> error + (string \<times> verdict) list"

definition PARENT_REPO_DIR :: "host \<Rightarrow> string" where
  "PARENT_REPO_DIR h = os_path_join (host_system h) (suite_CURRENT_DIR h) [''..'']"

definition TEST_DIR :: "host \<Rightarrow> string" where
  "TEST_DIR h = os_path_join (host_system h) (PARENT_REPO_DIR h) [''tests'']"

definition session_setup :: "host \<Rightarrow> error option" where
  "session_setup h = initialize h"

definition session_teardown :: "host \<Rightarrow> error option" where
  "session_teardown h = uninitialize h"

text \<open>
  \<open>with mayapy_session(): body\<close>. The generator has no \<open>try\<close>: an exception of the body
  passes through it and \<open>session_teardown\<close> does not run; when the body ends without
  one, \<open>session_teardown\<close> runs and what it raises replaces the result.
\<close>

definition mayapy_session :: "host \<Rightarrow> error + 'a \<Rightarrow> error + 'a" where
  "mayapy_session h body =
     (case session_setup h of
        Some e \<Rightarrow> Inl e
      | None \<Rightarrow>
          (case body of
             Inl e \<Rightarrow> Inl e
           | Inr result \<Rightarrow>
               (case session_teardown h of Some e \<Rightarrow> Inl e | None \<Rightarrow> Inr result)))"

text \<open>\<open>main\<close> of suite.py; \<open>bool\<close> of a list is whether it has an element.\<close>

definition suite_main :: "host \<Rightarrow> error + bool" where
  "suite_main h =
     mayapy_session h
       (case discover h (TEST_DIR h) of
          Inl e \<Rightarrow> Inl e
        | Inr suite \<Rightarrow> Inr (errors (runner_run suite) \<noteq> []))"

text \<open>
  \<open>sys.exit(main())\<close>: \<open>True\<close> is exit status 1 and \<open>False\<close> is 0; an exception that leaves
  \<open>main\<close> ends the interpreter with status 1.
\<close>

definition suite_script :: "host \<Rightarrow> int" where
  "suite_script h = (case suite_main h of Inr had_errors \<Rightarrow> (if had_errors then 1 else 0) | Inl e \<Rightarrow> 1)"

text \<open>
  The child process of the launcher when the interpreter starts and runs suite.py: its exit
  code is that of the script.
\<close>

definition mayapy_runs_suite :: "host \<Rightarrow> string list \<Rightarrow> (string \<rightharpoonup> string) \<Rightarrow> fs \<Rightarrow> (error + int) \<times> fs" where
  "mayapy_runs_suite h command env fs = (Inr (suite_script h), fs)"

text \<open>The run passed: no test failed and none raised (\<open>TestResult.wasSuccessful\<close>).\<close>

definition wasSuccessful :: "test_result \<Rightarrow> bool" where
  "wasSuccessful r = (failures r = [] \<and> errors r = [])"

section \<open>Concrete runs\<close>

text \<open>
  A build server on Linux: Maya 2020 at its default location, the launcher checked out at
  \<open>/repo/maya-tests\<close> with its bundled preferences, and a child process to be supplied.
\<close>

definition linux_fs :: fs where
  "linux_fs =
     [''/usr/autodesk/maya2020'' \<mapsto> Dir False [],
      ''/usr/autodesk/maya2015-x64'' \<mapsto> Dir False [],
      ''/opt/maya'' \<mapsto> Dir False [],
      ''/Applications/Autodesk/maya2020/Maya.app/Contents'' \<mapsto> Dir False [],
      ''/tmp'' \<mapsto> Dir False [],
      ''/repo/maya-tests/clean_maya_app_dir'' \<mapsto>
         Dir False [(''prefs'', Dir False [(''userPrefs.mel'', File False)])]]"

definition linux_world ::
  "(string list \<Rightarrow> (string \<rightharpoonup> string) \<Rightarrow> fs \<Rightarrow> (error + int) \<times> fs) \<Rightarrow> world" where
  "linux_world c =
     \<lparr>environ = [''HOME'' \<mapsto> ''/home/ci''],
      system = ''Linux'',
      CURRENT_DIR = ''/repo/maya-tests'',
      gettempdir = ''/tmp'',
      uuid4 = ''1b4e28ba-2fa1-11d2-883f-0016d3cca427'',
      call = c\<rparr>"

text \<open>A child process that changes no file and ends with the given exit code.\<close>

definition exits_with :: "int \<Rightarrow> string list \<Rightarrow> (string \<rightharpoonup> string) \<Rightarrow> fs \<Rightarrow> (error + int) \<times> fs" where
  "exits_with code command env fs = (Inr code, fs)"

text \<open>The interpreter on that server, with the tests found under the parent repository.\<close>

definition linux_host :: "(string \<times> verdict) list \<Rightarrow> host" where
  "linux_host tests =
     \<lparr>host_system = ''Linux'',
      suite_CURRENT_DIR = ''/repo/maya-tests'',
      initialize = None,
      uninitialize = None,
      discover =
        (\<lambda>start_dir.
           if start_dir = ''/repo/maya-tests/../tests'' then Inr tests
           else Inl (ImportError (''Start directory is not importable: '' @ start_dir)))\<rparr>"

text \<open>
  A workstation on Windows, where the bundled preferences hold a read-only file (as a
  checkout from a version control system that locks files leaves them).
\<close>

definition windows_world ::
  "(string list \<Rightarrow> (string \<rightharpoonup> string) \<Rightarrow> fs \<Rightarrow> (error + int) \<times> fs) \<Rightarrow> world" where
  "windows_world c =
     \<lparr>environ = [''USERNAME'' \<mapsto> ''ci''],
      system = ''Windows'',
      CURRENT_DIR = ''C:/repo/maya-tests'',
      gettempdir = ''C:/Temp'',
      uuid4 = ''1b4e28ba-2fa1-11d2-883f-0016d3cca427'',
      call = c\<rparr>"

definition windows_fs :: fs where
  "windows_fs =
     [''C:/Program Files/Autodesk/Maya2020'' \<mapsto> Dir False [],
      ''C:/Temp'' \<mapsto> Dir False [],
      os_path_join ''Windows'' ''C:/repo/maya-tests'' [''clean_maya_app_dir''] \<mapsto>
         Dir False [(''userPrefs.mel'', File True)]]"

text \<open>
  A child process on the build server that looks at its environment: it ends with 0 when
  the three variables of the launcher and \<open>HOME\<close> have the values expected there, and
  with 1 otherwise.
\<close>

definition checks_environment ::
  "string list \<Rightarrow> (string \<rightharpoonup> string) \<Rightarrow> fs \<Rightarrow> (error + int) \<times> fs" where
  "checks_environment command env fs =
     (Inr (if env ''MAYA_APP_DIR'' = Some ''/tmp/maya_app_dir1b4e28ba-2fa1-11d2-883f-0016d3cca427''
              \<and> env ''MAYA_SCRIPT_PATH'' = Some []
              \<and> env ''MAYA_MODULE_PATH'' = Some ''/repo/maya-tests/../modules;/repo/maya-tests''
              \<and> env ''HOME'' = Some ''/home/ci''
           then 0 else 1),
      fs)"

section \<open>Shared facts\<close>

lemmas launcher_defs =
  main_def get_mayapy_executable_def get_maya_location_def resolve_location_def format_int_def
  digit_char_def os_path_exists_def create_clean_maya_app_dir_def os_path_join_def join2_def
  copytree_def rmtree_def guarded_def onerror_raise_def refused_def child_env_def
  PARENT_REPO_MODULE_PATH_def Let_def

lemmas example_defs =
  linux_world_def linux_fs_def linux_host_def windows_world_def windows_fs_def exits_with_def

lemmas suite_defs =
  suite_script_def suite_main_def mayapy_session_def session_setup_def session_teardown_def
  runner_run_def TEST_DIR_def PARENT_REPO_DIR_def mayapy_runs_suite_def wasSuccessful_def

text \<open>The formatted versions the concrete runs use.\<close>

lemma format_int_2020: "format_int 2020 = ''2020''"
  by (simp add: format_int_def digit_char_def)

lemma format_int_2015: "format_int 2015 = ''2015''"
  by (simp add: format_int_def digit_char_def)

lemma format_int_2019: "format_int 2019 = ''2019''"
  by (simp add: format_int_def digit_char_def)

text \<open>What \<open>TextTestRunner.run\<close> files under \<open>errors\<close>.\<close>

lemma errors_foldl_add_result:
  "(errors (foldl add_result r suite) \<noteq> []) =
     (errors r \<noteq> [] \<or> (\<exists>t tb. (t, Error tb) \<in> set suite))"
proof (induction suite arbitrary: r)
  case Nil
  then show ?case by simp
next
  case (Cons x xs)
  obtain t v where x: "x = (t, v)" by (cases x)
  show ?case unfolding x by (cases v) (auto simp: Cons.IH)
qed

lemma errors_runner_run:
  "(errors (runner_run suite) \<noteq> []) = (\<exists>t tb. (t, Error tb) \<in> set suite)"
  by (simp add: runner_run_def errors_foldl_add_result)

lemma test_dir_linux_host: "TEST_DIR (linux_host tests) = ''/repo/maya-tests/../tests''"
  by (simp add: TEST_DIR_def PARENT_REPO_DIR_def os_path_join_def join2_def linux_host_def)






section \<open>The read-only handler\<close>

text \<open>
  C9 (as amended). Every invocation of \<open>remove_read_only\<close> raises: a \<open>NameError\<close> for the
  unbound name \<open>errno\<close> when \<open>func\<close> is \<open>os.rmdir\<close> or \<open>os.remove\<close>, and the
  \<open>RuntimeError\<close> of the \<open>else\<close> branch for any other \<open>func\<close>. It never returns, so it
  never gets to \<open>os.chmod\<close> and the second call of \<open>func\<close>.
\<close>

theorem remove_read_only_always_raises:
  "remove_read_only func path excvalue_errno sys dir_read_only st =
     (if func = os_rmdir \<or> func = os_remove then Inl (NameError ''errno'')
      else Inl (RuntimeError (''Could not remove '' @ path)))"
  by (simp add: remove_read_only_def load_global_def module_globals_def)

text \<open>
  C9 as first stated (a \<open>NameError\<close> on every invocation) fails when \<open>rmtree\<close> reports a
  failure of \<open>os.listdir\<close>: the condition stops at \<open>func in (os.rmdir, os.remove)\<close> and
  the handler raises \<open>RuntimeError\<close>.
\<close>

theorem remove_read_only_listdir_counterexample:
  "remove_read_only os_listdir ''/tmp/maya_app_dir1b4e28ba-2fa1-11d2-883f-0016d3cca427'' ENOTDIR
       ''Linux'' False (Some (File False))
     = Inl (RuntimeError ''Could not remove /tmp/maya_app_dir1b4e28ba-2fa1-11d2-883f-0016d3cca427'')
   \<and> remove_read_only os_listdir ''/tmp/maya_app_dir1b4e28ba-2fa1-11d2-883f-0016d3cca427'' ENOTDIR
       ''Linux'' False (Some (File False))
     \<noteq> Inl (NameError ''errno'')"
  by (simp add: remove_read_only_def)

text \<open>
  Both branches are reached from \<open>create_clean_maya_app_dir\<close>. A plain file at the path of
  the new directory makes \<open>os.listdir\<close> fail. An entry the system refuses to remove makes
  \<open>os.remove\<close> fail: on Windows a read-only file, elsewhere any file in a read-only
  directory.
\<close>

lemma existing_file_reaches_else_branch:
  "fst (create_clean_maya_app_dir (linux_world (exits_with 0))
          (linux_fs(''/tmp/maya_app_dir1b4e28ba-2fa1-11d2-883f-0016d3cca427'' \<mapsto> File False)))
     = Inl (RuntimeError ''Could not remove /tmp/maya_app_dir1b4e28ba-2fa1-11d2-883f-0016d3cca427'')"
  by (simp add: launcher_defs example_defs remove_read_only_def)

lemma existing_read_only_file_is_not_recovered:
  "fst (create_clean_maya_app_dir (windows_world (exits_with 0))
          (windows_fs
             (os_path_join ''Windows'' ''C:/Temp''
                [''maya_app_dir1b4e28ba-2fa1-11d2-883f-0016d3cca427''] \<mapsto>
              Dir False [(''userPrefs.mel'', File True)])))
     = Inl (NameError ''errno'')"
  by (simp add: launcher_defs example_defs refused_def remove_read_only_def load_global_def
      module_globals_def)

lemma existing_read_only_directory_is_not_recovered:
  "fst (create_clean_maya_app_dir (linux_world (exits_with 0))
          (linux_fs(''/tmp/maya_app_dir1b4e28ba-2fa1-11d2-883f-0016d3cca427'' \<mapsto>
             Dir True [(''userPrefs.mel'', File False)])))
     = Inl (NameError ''errno'')"
  by (simp add: launcher_defs example_defs refused_def remove_read_only_def load_global_def
      module_globals_def)

text \<open>On Linux a read-only file in a writable directory is removed without the handler.\<close>

lemma existing_read_only_file_on_linux_is_removed:
  "fst (create_clean_maya_app_dir (linux_world (exits_with 0))
          (linux_fs(''/tmp/maya_app_dir1b4e28ba-2fa1-11d2-883f-0016d3cca427'' \<mapsto>
             Dir False [(''userPrefs.mel'', File True)])))
     = Inr ''/tmp/maya_app_dir1b4e28ba-2fa1-11d2-883f-0016d3cca427''"
  by (simp add: launcher_defs example_defs refused_def)

section \<open>The environment of the child process\<close>

text \<open>
  Whenever \<open>subprocess.call\<close> has returned, the interpreter and the preferences directory
  were found and made, and what came back is what the call gives for the command of
  lines 38 to 41 and the environment \<open>child_env\<close> builds.
\<close>

lemma main_calls_child:
  assumes "returned (main w arg fs) = Some r"
  shows "\<exists>mayapy d fs1.
           get_mayapy_executable w fs (case arg of None \<Rightarrow> 2020 | Some v \<Rightarrow> v) = Inr mayapy
         \<and> create_clean_maya_app_dir w fs = (Inr d, fs1)
         \<and> r = fst (call w [mayapy, os_path_join (system w) (CURRENT_DIR w) [''suite.py'']]
                     (child_env w d) fs1)"
  using assms by (auto simp: main_def Let_def split: sum.splits prod.splits)

lemma linux_run_checks_environment:
  "returned (main (linux_world checks_environment) None linux_fs) = Some (Inr 0)"
  by (simp add: launcher_defs example_defs checks_environment_def)

lemma linux_run_made:
  "get_mayapy_executable (linux_world c) linux_fs 2020 = Inr ''/usr/autodesk/maya2020/bin/mayapy''
   \<and> fst (create_clean_maya_app_dir (linux_world c) linux_fs)
       = Inr ''/tmp/maya_app_dir1b4e28ba-2fa1-11d2-883f-0016d3cca427''"
  by (simp add: launcher_defs example_defs)

text \<open>
  C10. Whenever the launcher has run the child process, on whatever platform, the
  environment that \<open>subprocess.call\<close> received has \<open>MAYA_MODULE_PATH\<close> set to
  \<open>PARENT_REPO_MODULE_PATH\<close>, a semicolon, and \<open>CURRENT_DIR\<close>.
\<close>

theorem module_path_joined_by_semicolon:
  assumes "returned (main w arg fs) = Some r"
  shows "\<exists>mayapy d fs1 env.
           get_mayapy_executable w fs (case arg of None \<Rightarrow> 2020 | Some v \<Rightarrow> v) = Inr mayapy
         \<and> create_clean_maya_app_dir w fs = (Inr d, fs1)
         \<and> r = fst (call w [mayapy, os_path_join (system w) (CURRENT_DIR w) [''suite.py'']] env fs1)
         \<and> env ''MAYA_MODULE_PATH'' = Some (PARENT_REPO_MODULE_PATH w @ '';'' @ CURRENT_DIR w)"
proof -
  from main_calls_child [OF assms] obtain mayapy d fs1 where
    "get_mayapy_executable w fs (case arg of None \<Rightarrow> 2020 | Some v \<Rightarrow> v) = Inr mayapy"
    "create_clean_maya_app_dir w fs = (Inr d, fs1)"
    "r = fst (call w [mayapy, os_path_join (system w) (CURRENT_DIR w) [''suite.py'']]
               (child_env w d) fs1)"
    by blast
  moreover have "child_env w d ''MAYA_MODULE_PATH''
                   = Some (PARENT_REPO_MODULE_PATH w @ '';'' @ CURRENT_DIR w)"
    by (simp add: child_env_def)
  ultimately show ?thesis by blast
qed

theorem module_path_joined_by_semicolon_witness:
  "system (linux_world checks_environment) = ''Linux''
   \<and> returned (main (linux_world checks_environment) None linux_fs) = Some (Inr 0)
   \<and> (\<exists>fs1 env.
         Inr 0 = fst (checks_environment
                        [''/usr/autodesk/maya2020/bin/mayapy'', ''/repo/maya-tests/suite.py''] env fs1)
       \<and> env ''MAYA_MODULE_PATH'' = Some ''/repo/maya-tests/../modules;/repo/maya-tests'')"
proof -
  let ?w = "linux_world checks_environment"
  have r: "returned (main ?w None linux_fs) = Some (Inr 0)"
    by (rule linux_run_checks_environment)
  have sys: "system ?w = ''Linux''" and c: "call ?w = checks_environment"
    by (simp_all add: linux_world_def)
  have path: "PARENT_REPO_MODULE_PATH ?w @ '';'' @ CURRENT_DIR ?w
                = ''/repo/maya-tests/../modules;/repo/maya-tests''"
    by (simp add: PARENT_REPO_MODULE_PATH_def os_path_join_def join2_def linux_world_def)
  have suite: "os_path_join (system ?w) (CURRENT_DIR ?w) [''suite.py''] = ''/repo/maya-tests/suite.py''"
    by (simp add: os_path_join_def join2_def linux_world_def)
  from module_path_joined_by_semicolon [OF r] obtain mayapy d fs1 env where
    exe: "get_mayapy_executable ?w linux_fs (case None of None \<Rightarrow> 2020 | Some v \<Rightarrow> v) = Inr mayapy"
    and got: "Inr 0 = fst (call ?w [mayapy, os_path_join (system ?w) (CURRENT_DIR ?w) [''suite.py'']] env fs1)"
    and var: "env ''MAYA_MODULE_PATH'' = Some (PARENT_REPO_MODULE_PATH ?w @ '';'' @ CURRENT_DIR ?w)"
    by blast
  from exe linux_run_made [of checks_environment]
  have "mayapy = ''/usr/autodesk/maya2020/bin/mayapy''"
    by simp
  with got var have "Inr 0 = fst (checks_environment
                        [''/usr/autodesk/maya2020/bin/mayapy'', ''/repo/maya-tests/suite.py''] env fs1)
       \<and> env ''MAYA_MODULE_PATH'' = Some ''/repo/maya-tests/../modules;/repo/maya-tests''"
    unfolding c suite path by simp
  with sys r show ?thesis by blast
qed

text \<open>
  C8. Whenever the launcher has run the child process, the environment that
  \<open>subprocess.call\<close> received is the launcher's own with three entries set:
  \<open>MAYA_APP_DIR\<close> is the directory \<open>create_clean_maya_app_dir\<close> returned,
  \<open>MAYA_SCRIPT_PATH\<close> is the empty string, \<open>MAYA_MODULE_PATH\<close> has a value; every other
  variable is as in \<open>os.environ\<close>.
\<close>

theorem child_environment:
  assumes "returned (main w arg fs) = Some r"
  shows "\<exists>mayapy d fs1 env.
           get_mayapy_executable w fs (case arg of None \<Rightarrow> 2020 | Some v \<Rightarrow> v) = Inr mayapy
         \<and> create_clean_maya_app_dir w fs = (Inr d, fs1)
         \<and> r = fst (call w [mayapy, os_path_join (system w) (CURRENT_DIR w) [''suite.py'']] env fs1)
         \<and> env ''MAYA_APP_DIR'' = Some d
         \<and> env ''MAYA_SCRIPT_PATH'' = Some []
         \<and> env ''MAYA_MODULE_PATH'' \<noteq> None
         \<and> (\<forall>k. k \<noteq> ''MAYA_APP_DIR'' \<and> k \<noteq> ''MAYA_SCRIPT_PATH'' \<and> k \<noteq> ''MAYA_MODULE_PATH''
                \<longrightarrow> env k = environ w k)"
proof -
  from main_calls_child [OF assms] obtain mayapy d fs1 where
    "get_mayapy_executable w fs (case arg of None \<Rightarrow> 2020 | Some v \<Rightarrow> v) = Inr mayapy"
    "create_clean_maya_app_dir w fs = (Inr d, fs1)"
    "r = fst (call w [mayapy, os_path_join (system w) (CURRENT_DIR w) [''suite.py'']]
               (child_env w d) fs1)"
    by blast
  moreover have "child_env w d ''MAYA_APP_DIR'' = Some d"
    and "child_env w d ''MAYA_SCRIPT_PATH'' = Some []"
    and "child_env w d ''MAYA_MODULE_PATH'' \<noteq> None"
    and "\<forall>k. k \<noteq> ''MAYA_APP_DIR'' \<and> k \<noteq> ''MAYA_SCRIPT_PATH'' \<and> k \<noteq> ''MAYA_MODULE_PATH''
              \<longrightarrow> child_env w d k = environ w k"
    by (simp_all add: child_env_def)
  ultimately show ?thesis by blast
qed

theorem child_environment_witness:
  "returned (main (linux_world checks_environment) None linux_fs) = Some (Inr 0)
   \<and> (\<exists>fs1 env.
         Inr 0 = fst (checks_environment
                        [''/usr/autodesk/maya2020/bin/mayapy'', ''/repo/maya-tests/suite.py''] env fs1)
       \<and> env ''MAYA_APP_DIR'' = Some ''/tmp/maya_app_dir1b4e28ba-2fa1-11d2-883f-0016d3cca427''
       \<and> env ''MAYA_SCRIPT_PATH'' = Some []
       \<and> env ''MAYA_MODULE_PATH'' \<noteq> None
       \<and> env ''HOME'' = Some ''/home/ci'')"
proof -
  let ?w = "linux_world checks_environment"
  have r: "returned (main ?w None linux_fs) = Some (Inr 0)"
    by (rule linux_run_checks_environment)
  have c: "call ?w = checks_environment" and home: "environ ?w ''HOME'' = Some ''/home/ci''"
    by (simp_all add: linux_world_def)
  have suite: "os_path_join (system ?w) (CURRENT_DIR ?w) [''suite.py''] = ''/repo/maya-tests/suite.py''"
    by (simp add: os_path_join_def join2_def linux_world_def)
  have made: "get_mayapy_executable ?w linux_fs 2020 = Inr ''/usr/autodesk/maya2020/bin/mayapy''"
    and dir: "fst (create_clean_maya_app_dir ?w linux_fs)
                = Inr ''/tmp/maya_app_dir1b4e28ba-2fa1-11d2-883f-0016d3cca427''"
    using linux_run_made [of checks_environment] by blast+
  from child_environment [OF r] obtain mayapy d fs1 env where
    exe: "get_mayapy_executable ?w linux_fs (case None of None \<Rightarrow> 2020 | Some v \<Rightarrow> v) = Inr mayapy"
    and cc: "create_clean_maya_app_dir ?w linux_fs = (Inr d, fs1)"
    and got: "Inr 0 = fst (call ?w [mayapy, os_path_join (system ?w) (CURRENT_DIR ?w) [''suite.py'']] env fs1)"
    and app: "env ''MAYA_APP_DIR'' = Some d"
    and script: "env ''MAYA_SCRIPT_PATH'' = Some []"
    and modules: "env ''MAYA_MODULE_PATH'' \<noteq> None"
    and rest: "\<forall>k. k \<noteq> ''MAYA_APP_DIR'' \<and> k \<noteq> ''MAYA_SCRIPT_PATH'' \<and> k \<noteq> ''MAYA_MODULE_PATH''
                  \<longrightarrow> env k = environ ?w k"
    by (elim exE conjE)
  have m: "mayapy = ''/usr/autodesk/maya2020/bin/mayapy''"
    using exe made by simp
  have d: "d = ''/tmp/maya_app_dir1b4e28ba-2fa1-11d2-883f-0016d3cca427''"
    using cc dir by simp
  have "env ''HOME'' = environ ?w ''HOME''"
    by (rule rest [rule_format]) simp
  then have h: "env ''HOME'' = Some ''/home/ci''"
    unfolding home .
  have g: "Inr 0 = fst (checks_environment
                        [''/usr/autodesk/maya2020/bin/mayapy'', ''/repo/maya-tests/suite.py''] env fs1)"
    using got unfolding c suite m .
  have a: "env ''MAYA_APP_DIR'' = Some ''/tmp/maya_app_dir1b4e28ba-2fa1-11d2-883f-0016d3cca427''"
    using app unfolding d .
  from g a script modules h
  have "\<exists>fs1 env.
         Inr 0 = fst (checks_environment
                        [''/usr/autodesk/maya2020/bin/mayapy'', ''/repo/maya-tests/suite.py''] env fs1)
       \<and> env ''MAYA_APP_DIR'' = Some ''/tmp/maya_app_dir1b4e28ba-2fa1-11d2-883f-0016d3cca427''
       \<and> env ''MAYA_SCRIPT_PATH'' = Some []
       \<and> env ''MAYA_MODULE_PATH'' \<noteq> None
       \<and> env ''HOME'' = Some ''/home/ci''"
    by (intro exI conjI)
  with r show ?thesis by (rule conjI)
qed

section \<open>The exit code of the launcher\<close>



section \<open>The exit status of the entry point\<close>

text \<open>
  C4 (as amended). When the session starts, \<open>loader.discover\<close> finds the tests and the
  session ends, each without an exception, \<open>main\<close> of suite.py returns whether the run
  recorded an error, that is whether some test raised, and the script ends with exit
  status 1 when it did and 0 when it did not. When \<open>maya.standalone.initialize\<close>,
  \<open>loader.discover\<close> or \<open>maya.standalone.uninitialize\<close> raises, \<open>main\<close> returns nothing and
  the script ends with exit status 1, whatever the tests did.
\<close>

theorem suite_main_exit_status:
  "(initialize h = None \<and> discover h (TEST_DIR h) = Inr suite \<and> uninitialize h = None
      \<longrightarrow> suite_main h = Inr (errors (runner_run suite) \<noteq> [])
          \<and> (errors (runner_run suite) \<noteq> []) = (\<exists>t tb. (t, Error tb) \<in> set suite)
          \<and> suite_script h = (if errors (runner_run suite) \<noteq> [] then 1 else 0))
   \<and> (initialize h \<noteq> None \<or> (\<exists>e. discover h (TEST_DIR h) = Inl e) \<or> uninitialize h \<noteq> None
      \<longrightarrow> (\<exists>e. suite_main h = Inl e) \<and> suite_script h = 1)"
  by (auto simp: suite_script_def suite_main_def mayapy_session_def session_setup_def
      session_teardown_def errors_runner_run split: sum.splits option.splits)

theorem suite_main_exit_status_witness:
  "suite_main (linux_host [(''test_rig.RigTest.test_build'', Error ''ValueError'')]) = Inr True
   \<and> suite_script (linux_host [(''test_rig.RigTest.test_build'', Error ''ValueError'')]) = 1
   \<and> suite_main (linux_host [(''test_rig.RigTest.test_build'', Success)]) = Inr False
   \<and> suite_script (linux_host [(''test_rig.RigTest.test_build'', Success)]) = 0
   \<and> suite_script
        ((linux_host [(''test_rig.RigTest.test_build'', Success)])
           \<lparr>suite_CURRENT_DIR := ''/repo/elsewhere''\<rparr>) = 1"
proof -
  let ?bad = "linux_host [(''test_rig.RigTest.test_build'', Error ''ValueError'')]"
  let ?good = "linux_host [(''test_rig.RigTest.test_build'', Success)]"
  let ?lost = "?good\<lparr>suite_CURRENT_DIR := ''/repo/elsewhere''\<rparr>"
  have bad: "initialize ?bad = None
      \<and> discover ?bad (TEST_DIR ?bad) = Inr [(''test_rig.RigTest.test_build'', Error ''ValueError'')]
      \<and> uninitialize ?bad = None"
    by (simp add: test_dir_linux_host) (simp add: linux_host_def)
  have good: "initialize ?good = None
      \<and> discover ?good (TEST_DIR ?good) = Inr [(''test_rig.RigTest.test_build'', Success)]
      \<and> uninitialize ?good = None"
    by (simp add: test_dir_linux_host) (simp add: linux_host_def)
  have lost: "\<exists>e. discover ?lost (TEST_DIR ?lost) = Inl e"
    by (simp add: TEST_DIR_def PARENT_REPO_DIR_def os_path_join_def join2_def linux_host_def)
  from suite_main_exit_status [of ?bad "[(''test_rig.RigTest.test_build'', Error ''ValueError'')]"] bad
       suite_main_exit_status [of ?good "[(''test_rig.RigTest.test_build'', Success)]"] good
       suite_main_exit_status [of ?lost "[]"] lost
  show ?thesis
    by (simp add: runner_run_def)
qed

text \<open>
  C4 as first stated (exit status 1 exactly when the run had errors) fails when the
  session does not end cleanly: the one test passes and no error is recorded, yet
  \<open>maya.standalone.uninitialize\<close> raises (here as an interpreter whose \<open>maya.standalone\<close>
  has no such function does), \<open>main\<close> returns no boolean and the exit status is 1.
\<close>

theorem teardown_raises_counterexample:
  "discover ((linux_host [(''test_rig.RigTest.test_build'', Success)])
               \<lparr>uninitialize := Some (AttributeError ''uninitialize'')\<rparr>)
       ''/repo/maya-tests/../tests''
     = Inr [(''test_rig.RigTest.test_build'', Success)]
   \<and> errors (runner_run [(''test_rig.RigTest.test_build'', Success)]) = []
   \<and> suite_main ((linux_host [(''test_rig.RigTest.test_build'', Success)])
                   \<lparr>uninitialize := Some (AttributeError ''uninitialize'')\<rparr>)
     = Inl (AttributeError ''uninitialize'')
   \<and> suite_script ((linux_host [(''test_rig.RigTest.test_build'', Success)])
                     \<lparr>uninitialize := Some (AttributeError ''uninitialize'')\<rparr>)
     = 1"
  by (simp add: linux_host_def suite_defs os_path_join_def join2_def)

section \<open>Where the interpreter is\<close>

text \<open>
  C5. With no \<open>MAYA_LOCATION\<close> in the environment and the default location on disk, the
  interpreter is \<open>C:/Program Files/Autodesk/Maya{v}/bin/mayapy.exe\<close> on Windows,
  \<open>/Applications/Autodesk/maya{v}/Maya.app/Contents/bin/mayapy\<close> on Darwin, and
  \<open>/usr/autodesk/maya{v}/bin/mayapy\<close> elsewhere, the directory carrying \<open>-x64\<close> exactly
  when \<open>v < 2016\<close>. With \<open>MAYA_LOCATION\<close> set to a location on disk, that location is the
  installation and the interpreter is \<open>bin/mayapy\<close> under it (\<open>.exe\<close> on Windows).
\<close>

theorem mayapy_executable_per_platform:
  "(environ w ''MAYA_LOCATION'' = None \<and> system w = ''Windows''
      \<and> os_path_exists fs (''C:/Program Files/Autodesk/Maya'' @ format_int v)
     \<longrightarrow> get_mayapy_executable w fs v
           = Inr (''C:/Program Files/Autodesk/Maya'' @ format_int v @ ''/bin/mayapy.exe''))
   \<and> (environ w ''MAYA_LOCATION'' = None \<and> system w = ''Darwin''
      \<and> os_path_exists fs (''/Applications/Autodesk/maya'' @ format_int v @ ''/Maya.app/Contents'')
     \<longrightarrow> get_mayapy_executable w fs v
           = Inr (''/Applications/Autodesk/maya'' @ format_int v @ ''/Maya.app/Contents/bin/mayapy''))
   \<and> (environ w ''MAYA_LOCATION'' = None \<and> system w \<noteq> ''Windows'' \<and> system w \<noteq> ''Darwin''
      \<and> v < 2016 \<and> os_path_exists fs (''/usr/autodesk/maya'' @ format_int v @ ''-x64'')
     \<longrightarrow> get_mayapy_executable w fs v
           = Inr (''/usr/autodesk/maya'' @ format_int v @ ''-x64/bin/mayapy''))
   \<and> (environ w ''MAYA_LOCATION'' = None \<and> system w \<noteq> ''Windows'' \<and> system w \<noteq> ''Darwin''
      \<and> \<not> v < 2016 \<and> os_path_exists fs (''/usr/autodesk/maya'' @ format_int v)
     \<longrightarrow> get_mayapy_executable w fs v
           = Inr (''/usr/autodesk/maya'' @ format_int v @ ''/bin/mayapy''))
   \<and> (environ w ''MAYA_LOCATION'' = Some location \<and> os_path_exists fs location
     \<longrightarrow> get_maya_location w fs v = Inr location
         \<and> get_mayapy_executable w fs v
           = Inr (location @ ''/bin/mayapy'' @ (if system w = ''Windows'' then ''.exe'' else [])))"
  by (simp add: get_mayapy_executable_def get_maya_location_def resolve_location_def Let_def)

theorem mayapy_executable_per_platform_witness:
  "get_mayapy_executable (windows_world (exits_with 0)) windows_fs 2020
     = Inr ''C:/Program Files/Autodesk/Maya2020/bin/mayapy.exe''
   \<and> get_mayapy_executable ((linux_world (exits_with 0))\<lparr>system := ''Darwin''\<rparr>) linux_fs 2020
     = Inr ''/Applications/Autodesk/maya2020/Maya.app/Contents/bin/mayapy''
   \<and> get_mayapy_executable (linux_world (exits_with 0)) linux_fs 2015
     = Inr ''/usr/autodesk/maya2015-x64/bin/mayapy''
   \<and> get_mayapy_executable (linux_world (exits_with 0)) linux_fs 2020
     = Inr ''/usr/autodesk/maya2020/bin/mayapy''
   \<and> get_mayapy_executable
        ((linux_world (exits_with 0))\<lparr>environ := [''MAYA_LOCATION'' \<mapsto> ''/opt/maya'']\<rparr>) linux_fs 2020
     = Inr ''/opt/maya/bin/mayapy''"
proof -
  let ?win = "windows_world (exits_with 0)"
  let ?mac = "(linux_world (exits_with 0))\<lparr>system := ''Darwin''\<rparr>"
  let ?lin = "linux_world (exits_with 0)"
  let ?set = "(linux_world (exits_with 0))\<lparr>environ := [''MAYA_LOCATION'' \<mapsto> ''/opt/maya'']\<rparr>"
  have win: "environ ?win ''MAYA_LOCATION'' = None \<and> system ?win = ''Windows''
      \<and> os_path_exists windows_fs (''C:/Program Files/Autodesk/Maya'' @ format_int 2020)"
    by (simp add: windows_world_def windows_fs_def os_path_exists_def format_int_2020)
  have mac: "environ ?mac ''MAYA_LOCATION'' = None \<and> system ?mac = ''Darwin''
      \<and> os_path_exists linux_fs (''/Applications/Autodesk/maya'' @ format_int 2020 @ ''/Maya.app/Contents'')"
    by (simp add: linux_world_def linux_fs_def os_path_exists_def format_int_2020)
  have old: "environ ?lin ''MAYA_LOCATION'' = None \<and> system ?lin \<noteq> ''Windows'' \<and> system ?lin \<noteq> ''Darwin''
      \<and> (2015::int) < 2016 \<and> os_path_exists linux_fs (''/usr/autodesk/maya'' @ format_int 2015 @ ''-x64'')"
    by (simp add: linux_world_def linux_fs_def os_path_exists_def format_int_2015)
  have new: "environ ?lin ''MAYA_LOCATION'' = None \<and> system ?lin \<noteq> ''Windows'' \<and> system ?lin \<noteq> ''Darwin''
      \<and> \<not> (2020::int) < 2016 \<and> os_path_exists linux_fs (''/usr/autodesk/maya'' @ format_int 2020)"
    by (simp add: linux_world_def linux_fs_def os_path_exists_def format_int_2020)
  have ovr: "environ ?set ''MAYA_LOCATION'' = Some ''/opt/maya'' \<and> os_path_exists linux_fs ''/opt/maya''"
    by (simp add: linux_world_def linux_fs_def os_path_exists_def)
  have sys: "system ?set \<noteq> ''Windows''"
    by (simp add: linux_world_def)
  from mayapy_executable_per_platform [of ?win windows_fs 2020] win
       mayapy_executable_per_platform [of ?mac linux_fs 2020] mac
       mayapy_executable_per_platform [of ?lin linux_fs 2015] old
       mayapy_executable_per_platform [of ?lin linux_fs 2020] new
       mayapy_executable_per_platform [of ?set linux_fs 2020 "''/opt/maya''"] ovr sys
  show ?thesis
    by (simp add: format_int_2020 format_int_2015)
qed

text \<open>
  C6. \<open>get_maya_location\<close> raises exactly when the location it resolved is not on disk, the
  exception is the \<open>RuntimeError\<close> whose message names the version, and a location that is
  on disk is returned as it is.
\<close>

theorem get_maya_location_raises_iff_missing:
  "\<exists>location. resolve_location w maya_version = Some location
     \<and> (get_maya_location w fs maya_version
          = Inl (RuntimeError (''Maya '' @ format_int maya_version @ '' is not installed on this system.'')))
        = (\<not> os_path_exists fs location)
     \<and> (\<exists>e. get_maya_location w fs maya_version = Inl e) = (\<not> os_path_exists fs location)
     \<and> (get_maya_location w fs maya_version = Inr location) = os_path_exists fs location"
  by (auto simp: get_maya_location_def resolve_location_def Let_def split: option.splits)

theorem get_maya_location_raises_iff_missing_witness:
  "get_maya_location (linux_world (exits_with 0)) linux_fs 2019
     = Inl (RuntimeError ''Maya 2019 is not installed on this system.'')
   \<and> get_maya_location (linux_world (exits_with 0)) linux_fs 2020 = Inr ''/usr/autodesk/maya2020''"
proof -
  let ?w = "linux_world (exits_with 0)"
  have r19: "resolve_location ?w 2019 = Some ''/usr/autodesk/maya2019''"
    by (simp add: resolve_location_def linux_world_def format_int_2019)
  have r20: "resolve_location ?w 2020 = Some ''/usr/autodesk/maya2020''"
    by (simp add: resolve_location_def linux_world_def format_int_2020)
  have e19: "\<not> os_path_exists linux_fs ''/usr/autodesk/maya2019''"
    by (simp add: os_path_exists_def linux_fs_def)
  have e20: "os_path_exists linux_fs ''/usr/autodesk/maya2020''"
    by (simp add: os_path_exists_def linux_fs_def)
  from get_maya_location_raises_iff_missing [of ?w 2019 linux_fs] r19 e19
  have "get_maya_location ?w linux_fs 2019
          = Inl (RuntimeError (''Maya '' @ format_int 2019 @ '' is not installed on this system.''))"
    by auto
  moreover from get_maya_location_raises_iff_missing [of ?w 2020 linux_fs] r20 e20
  have "get_maya_location ?w linux_fs 2020 = Inr ''/usr/autodesk/maya2020''"
    by auto
  ultimately show ?thesis by (simp add: format_int_2019)
qed

section \<open>The fresh preferences directory\<close>



section \<open>Where the code falls short\<close>

text \<open>
  C1 says the shell sees a non-zero exit code whenever the suite did not pass. A run with
  one failed assertion and no error did not pass, yet \<open>main\<close> of suite.py returns \<open>False\<close>
  (it looks at \<open>errors\<close> only), the script ends with status 0 and the launcher forwards 0.
\<close>

theorem failed_test_exits_zero:
  "discover (linux_host [(''test_rig.RigTest.test_build'', Failure ''AssertionError'')])
       (TEST_DIR (linux_host [(''test_rig.RigTest.test_build'', Failure ''AssertionError'')]))
     = Inr [(''test_rig.RigTest.test_build'', Failure ''AssertionError'')]
   \<and> \<not> wasSuccessful (runner_run [(''test_rig.RigTest.test_build'', Failure ''AssertionError'')])
   \<and> suite_main (linux_host [(''test_rig.RigTest.test_build'', Failure ''AssertionError'')])
       = Inr False
   \<and> suite_script (linux_host [(''test_rig.RigTest.test_build'', Failure ''AssertionError'')]) = 0
   \<and> outcome
        (main
          (linux_world
            (mayapy_runs_suite
              (linux_host [(''test_rig.RigTest.test_build'', Failure ''AssertionError'')])))
          None linux_fs)
       = Exit 0
   \<and> exit_status
        (outcome
          (main
            (linux_world
              (mayapy_runs_suite
                (linux_host [(''test_rig.RigTest.test_build'', Failure ''AssertionError'')])))
            None linux_fs))
       = 0"
  by (simp add: launcher_defs example_defs suite_defs)

text \<open>
  C2 says the removal of the temporary directory tolerates read-only files and leaves the
  exit code alone. The \<open>rmtree\<close> of the \<open>finally\<close> clause has no handler: with a read-only
  file copied from the bundled preferences, the child process ends with 0, the removal
  raises, the launcher ends with that exception (exit status 1) and the file is still
  there.
\<close>

theorem read_only_file_aborts_cleanup:
  "returned (main (windows_world (exits_with 0)) None windows_fs) = Some (Inr 0)
   \<and> outcome (main (windows_world (exits_with 0)) None windows_fs)
       = Uncaught
           (OSError EACCES
             (os_path_join ''Windows'' ''C:/Temp''
               [''maya_app_dir1b4e28ba-2fa1-11d2-883f-0016d3cca427'', ''userPrefs.mel'']))
   \<and> exit_status (outcome (main (windows_world (exits_with 0)) None windows_fs)) = 1
   \<and> store (main (windows_world (exits_with 0)) None windows_fs)
        (os_path_join ''Windows'' ''C:/Temp'' [''maya_app_dir1b4e28ba-2fa1-11d2-883f-0016d3cca427''])
       = Some (Dir False [(''userPrefs.mel'', File True)])"
  by (simp add: launcher_defs example_defs)

end
